theory Spec2Isabelle
  imports Main
begin

section \<open>Errors and the failure taxonomy (utils/errors)\<close>

text \<open>
  A JavaScript \<^verbatim>\<open>Error\<close> is modelled by its message. A value that is thrown is either
  an \<^verbatim>\<open>Error\<close> or something else, of which only its string rendering matters:
  fp-ts' \<^verbatim>\<open>toError\<close> keeps an \<^verbatim>\<open>Error\<close> and wraps anything else in
  \<^verbatim>\<open>new Error(String(e))\<close>.
\<close>

datatype error = Error (message: string)

datatype thrown = ThrownError error | ThrownOther string

fun toError :: "thrown \<Rightarrow> error" where
  "toError (ThrownError e) = e"
| "toError (ThrownOther s) = Error s"

text \<open>
  \<^verbatim>\<open>Failure = t.union([TransientFailure, PermanentFailure])\<close>: two interfaces told apart by
  the literal in their \<^verbatim>\<open>kind\<close> field, each with a \<^verbatim>\<open>reason\<close> string.
\<close>

datatype failure_kind = TRANSIENT | PERMANENT

record Failure =
  kind :: failure_kind
  reason :: string

definition TransientFailure_is :: "Failure \<Rightarrow> bool" where
  "TransientFailure_is err = (kind err = TRANSIENT)"

definition PermanentFailure_is :: "Failure \<Rightarrow> bool" where
  "PermanentFailure_is err = (kind err = PERMANENT)"

text \<open>
  \<^verbatim>\<open>pipe(customReason, O.fromNullable, O.map(...), O.getOrElse(...))\<close>: the optional
  argument is \<open>None\<close> when it is \<^verbatim>\<open>undefined\<close>; an empty string is a present value.
\<close>

definition errorMsg_of :: "error \<Rightarrow> string option \<Rightarrow> string" where
  "errorMsg_of err customReason =
     (case customReason of
        Some r \<Rightarrow> ''ERROR='' @ r @ '' DETAIL='' @ message err
      | None \<Rightarrow> ''ERROR='' @ message err)"

definition toTransientFailure :: "error \<Rightarrow> string option \<Rightarrow> Failure" where
  "toTransientFailure err customReason =
     \<lparr>kind = TRANSIENT, reason = ''TRANSIENT FAILURE|'' @ errorMsg_of err customReason\<rparr>"

definition toPermanentFailure :: "error \<Rightarrow> string option \<Rightarrow> Failure" where
  "toPermanentFailure err customReason =
     \<lparr>kind = PERMANENT, reason = ''PERMANENT FAILURE|'' @ errorMsg_of err customReason\<rparr>"

text \<open>
  The result of an activity: \<^verbatim>\<open>{kind: "SUCCESS"}\<close> or \<^verbatim>\<open>{kind: "FAILURE", reason}\<close>.
\<close>

datatype ActivityResult = SUCCESS | FAILURE string

section \<open>Orchestration instances (utils/orchestrators)\<close>

type_synonym FiscalCode = string

text \<open>
  \<^verbatim>\<open>makeRevokeCgnOrchestratorId = fiscalCode => `${fiscalCode}-REVOKE`\<close>
\<close>

definition makeRevokeCgnOrchestratorId :: "FiscalCode \<Rightarrow> string" where
  "makeRevokeCgnOrchestratorId fc = fc @ ''-REVOKE''"

text \<open>
  The target statuses that the handlers pass when they name an orchestration:
  \<^verbatim>\<open>CgnActivatedStatusEnum.ACTIVATED\<close>, \<^verbatim>\<open>CgnRevokedStatusEnum.REVOKED\<close> and
  \<^verbatim>\<open>CgnExpiredStatusEnum.EXPIRED\<close>.
\<close>

datatype TargetStatus = ACTIVATED | REVOKED | EXPIRED

text \<open>
  Modelled from the spec: \<^verbatim>\<open>makeUpdateCgnOrchestratorId\<close>, which the handlers import from
  utils/orchestrators and which is missing from that file. The spec's
  \<^verbatim>\<open>instanceId(userId, targetStatus)\<close> gives REVOKE and EXPIRE the one id
  \<^verbatim>\<open>"{userId}-REVOKE"\<close> (the id of \<^verbatim>\<open>makeRevokeCgnOrchestratorId\<close>) and ACTIVATE an id in
  a namespace of its own, which the spec writes \<^verbatim>\<open>{userId}-ACTIVATE\<close>.
\<close>

fun makeUpdateCgnOrchestratorId :: "FiscalCode \<Rightarrow> TargetStatus \<Rightarrow> string" where
  "makeUpdateCgnOrchestratorId fc REVOKED = makeRevokeCgnOrchestratorId fc"
| "makeUpdateCgnOrchestratorId fc EXPIRED = makeRevokeCgnOrchestratorId fc"
| "makeUpdateCgnOrchestratorId fc ACTIVATED = fc @ ''-ACTIVATE''"

text \<open>
  The runtime statuses of the workflow host (\<^verbatim>\<open>df.OrchestrationRuntimeStatus\<close>) and the
  status object that \<^verbatim>\<open>client.getStatus\<close> resolves to; \<^verbatim>\<open>isOrchestratorRunning\<close>
  returns that object extended with the field \<^verbatim>\<open>isRunning\<close>.
\<close>

datatype OrchestrationRuntimeStatus =
  Running | Completed | ContinuedAsNew | Failed | Canceled | Terminated | Pending

record DurableOrchestrationStatus =
  instanceId :: string
  runtimeStatus :: OrchestrationRuntimeStatus

record DurableOrchestrationStatusRunning = DurableOrchestrationStatus +
  isRunning :: bool

text \<open>The new card status an orchestration is asked to apply.\<close>

type_synonym Date = nat

datatype CgnStatus =
    CgnPendingStatus
  | CgnRevokedStatus Date "string option"
  | CgnExpiredStatus

record OrchestratorInput =
  fiscalCode :: FiscalCode
  newStatus :: CgnStatus

text \<open>
  The workflow host's client, as the three calls the code makes. Each call either throws
  (its promise rejects), \<open>Inl\<close>, or resolves, \<open>Inr\<close>.
\<close>

record DurableOrchestrationClient =
  getStatus :: "string \<Rightarrow> thrown + DurableOrchestrationStatus"
  startNew :: "string \<Rightarrow> string \<Rightarrow> OrchestratorInput \<Rightarrow> thrown + string"
  terminate :: "string \<Rightarrow> string \<Rightarrow> thrown + unit"

text \<open>
  \<^verbatim>\<open>tryCatch(() => client.getStatus(orchestratorId), toError).map(status => ({...status,
  isRunning: status.runtimeStatus === Running || status.runtimeStatus === Pending}))\<close>
\<close>

definition isOrchestratorRunning ::
  "DurableOrchestrationClient \<Rightarrow> string \<Rightarrow> error + DurableOrchestrationStatusRunning" where
  "isOrchestratorRunning client orchestratorId =
     (case getStatus client orchestratorId of
        Inl e \<Rightarrow> Inl (toError e)
      | Inr status \<Rightarrow>
          Inr (DurableOrchestrationStatus.extend status
                 (DurableOrchestrationStatusRunning.fields
                    (runtimeStatus status = Running \<or> runtimeStatus status = Pending))))"

section \<open>Observable effects\<close>

text \<open>
  The calls a handler makes on its collaborators, in the order it makes them: telemetry
  and log lines, and the calls on the workflow host's client and on the card store.
\<close>

datatype effect =
    TrackException string failure_kind bool
  | LogError string
  | LogInfo string
  | LogVerbose string
  | Terminate string string
  | StartNew string string OrchestratorInput
  | FindLastVersionByModelId FiscalCode
  | CheckUpdateCgnIsRunning FiscalCode CgnStatus

text \<open>
  \<^verbatim>\<open>trackFailure\<close> reports a failure: one call of \<^verbatim>\<open>trackException\<close> (the exception's
  message, then the properties \<^verbatim>\<open>detail\<close> and \<^verbatim>\<open>fatal\<close>) and one \<^verbatim>\<open>context.log.error\<close>
  with the same message.
\<close>

definition trackFailure_error :: "string \<Rightarrow> Failure \<Rightarrow> string" where
  "trackFailure_error logPrefix err =
     (if TransientFailure_is err
      then logPrefix @ ''|TRANSIENT_ERROR='' @ reason err
      else logPrefix @ ''|FATAL|PERMANENT_ERROR='' @ reason err)"

text \<open>
  \<^verbatim>\<open>trackFailure(context, logPrefix)(err)\<close>: the effects it has, and either the error it
  throws (\<open>Inl\<close>) or the activity result it returns (\<open>Inr\<close>).
\<close>

definition trackFailure :: "string \<Rightarrow> Failure \<Rightarrow> effect list \<times> (error + ActivityResult)" where
  "trackFailure logPrefix err =
     ([TrackException (trackFailure_error logPrefix err) (kind err) (PermanentFailure_is err),
       LogError (trackFailure_error logPrefix err)],
      if TransientFailure_is err
      then Inl (Error (reason err))
      else Inr (FAILURE (reason err)))"

text \<open>
  Modelled from the spec: \<^verbatim>\<open>terminateOrchestratorTask\<close>, imported from utils/orchestrators
  and missing there. The spec's \<^verbatim>\<open>terminate(instanceId, reason) -> Result<void, Error>\<close>
  on the instance that \<^verbatim>\<open>instanceId(userId, targetStatus)\<close> names: one call of the
  client's \<^verbatim>\<open>terminate\<close>, whose failure is returned as a value.
\<close>

definition terminateOrchestratorTask ::
  "DurableOrchestrationClient \<Rightarrow> FiscalCode \<Rightarrow> TargetStatus \<Rightarrow> string
     \<Rightarrow> effect list \<times> (error + unit)" where
  "terminateOrchestratorTask client fc status terminationReason =
     (let orchestratorId = makeUpdateCgnOrchestratorId fc status in
      ([Terminate orchestratorId terminationReason],
       case terminate client orchestratorId terminationReason of
         Inl e \<Rightarrow> Inl (toError e)
       | Inr u \<Rightarrow> Inr u))"

section \<open>The daily expiration sweep (UpdateExpiredCgn/handler)\<close>

definition ORCHESTRATION_TERMINATION_REASON :: string where
  "ORCHESTRATION_TERMINATION_REASON = ''An highest priority CGN update orchestrator needs to start''"

text \<open>The decimal rendering of an array length inside a template string.\<close>

fun string_of_nat :: "nat \<Rightarrow> string" where
  "string_of_nat n =
     (if n < 10 then [''0123456789'' ! n]
      else string_of_nat (n div 10) @ [''0123456789'' ! (n mod 10)])"

declare string_of_nat.simps [simp del]

text \<open>
  The callback that \<^verbatim>\<open>expiredCgnUsers.forEach\<close> runs for one user. It awaits the two
  terminations one after the other and drops what they resolve to, logs, and then awaits
  \<^verbatim>\<open>client.startNew\<close>, logging an error when that call throws. The callbacks of different
  users are not awaited by the handler and may interleave, so the model keeps the effects
  of each callback as a sequence of its own.
\<close>

definition expiredCgnUser_callback ::
  "DurableOrchestrationClient \<Rightarrow> string \<Rightarrow> FiscalCode \<Rightarrow> effect list" where
  "expiredCgnUser_callback client logPrefix fc =
     (let (terminated1, _) =
            terminateOrchestratorTask client fc ACTIVATED ORCHESTRATION_TERMINATION_REASON;
          (terminated2, _) =
            terminateOrchestratorTask client fc REVOKED ORCHESTRATION_TERMINATION_REASON;
          orchestratorId = makeUpdateCgnOrchestratorId fc EXPIRED;
          orchestratorInput = \<lparr>fiscalCode = fc, newStatus = CgnExpiredStatus\<rparr>
      in terminated1 @ terminated2
         @ [LogInfo (logPrefix @ ''| Starting new expire orchestrator for fiscalCode='' @ take 6 fc),
            StartNew ''UpdateCgnOrchestrator'' orchestratorId orchestratorInput]
         @ (case startNew client ''UpdateCgnOrchestrator'' orchestratorId orchestratorInput of
              Inl e \<Rightarrow>
                [LogError (logPrefix @ ''|Error while starting CGN expiration for fiscalCode=''
                           @ take 6 fc @ ''|ERROR='' @ message (toError e))]
            | Inr _ \<Rightarrow> []))"

text \<open>
  \<^verbatim>\<open>getUpdateExpiredCgnHandler\<close>: the query of the expiration table (a collaborator, given
  as a function of the day), then one callback for each user found. The result is the
  effects of the handler's own body and, for each user in turn, the effects of that user's
  callback.
\<close>

definition getUpdateExpiredCgnHandler ::
  "(string \<Rightarrow> error + FiscalCode list) \<Rightarrow> DurableOrchestrationClient \<Rightarrow> string \<Rightarrow> string
     \<Rightarrow> effect list \<times> effect list list" where
  "getUpdateExpiredCgnHandler getExpiredCgnUsers client logPrefix today =
     (case getExpiredCgnUsers today of
        Inl err \<Rightarrow> ([LogVerbose (logPrefix @ ''|ERROR='' @ message err)], [])
      | Inr expiredCgnUsers \<Rightarrow>
          ([LogInfo (logPrefix @ ''|Processing '' @ string_of_nat (length expiredCgnUsers)
                     @ '' expired CGNs'')],
           map (expiredCgnUser_callback client logPrefix) expiredCgnUsers))"

section \<open>Upserting a card status (UpsertCgnStatus/handler)\<close>

text \<open>
  Modelled from the spec: the generated request types, which are not among the sources. A
  status-change request is \<^verbatim>\<open>{action: "ACTIVATE" | "REVOKE", revocation_reason?: string}\<close>;
  a revocation request is one whose action is REVOKE and that carries a revocation reason.
\<close>

datatype ActionEnum = ACTIVATE | REVOKE

record CgnStatusUpsertRequest =
  action :: ActionEnum
  revocation_reason :: "string option"

definition CgnStatusRevocationRequest_is :: "CgnStatusUpsertRequest \<Rightarrow> bool" where
  "CgnStatusRevocationRequest_is upsertRequest =
     (action upsertRequest = REVOKE \<and> revocation_reason upsertRequest \<noteq> None)"

text \<open>\<^verbatim>\<open>toCgnStatus\<close>; \<^verbatim>\<open>new Date()\<close> is the argument \<open>now\<close>.\<close>

definition toCgnStatus :: "Date \<Rightarrow> CgnStatusUpsertRequest \<Rightarrow> CgnStatus" where
  "toCgnStatus now cgnStatusUpsertRequest =
     (if action cgnStatusUpsertRequest = REVOKE
      then CgnRevokedStatus now (revocation_reason cgnStatusUpsertRequest)
      else CgnPendingStatus)"

text \<open>The responses of italia-ts-commons that the handler can return.\<close>

datatype response =
    ResponseErrorForbiddenNotAuthorized
  | ResponseErrorInternal string
  | ResponseErrorNotFound string string
  | ResponseErrorConflict string
  | ResponseSuccessAccepted
  | ResponseSuccessRedirectToResource string string string

text \<open>
  \<^verbatim>\<open>UpsertCgnStatusHandler\<close>. Its collaborators are arguments: the card store's
  \<^verbatim>\<open>findLastVersionByModelId\<close>, the guard \<^verbatim>\<open>checkUpdateCgnIsRunning\<close> (imported from
  utils/orchestrators and missing there; a Left is the response to return, a Right lets the
  orchestration start) and the workflow host's client. The steps are chained, so each one
  runs only when the one before it gave a Right.
\<close>

definition UpsertCgnStatusHandler ::
  "(FiscalCode \<Rightarrow> error + 'cgn option) \<Rightarrow> (FiscalCode \<Rightarrow> CgnStatus \<Rightarrow> response + unit)
     \<Rightarrow> DurableOrchestrationClient \<Rightarrow> string \<Rightarrow> Date \<Rightarrow> FiscalCode \<Rightarrow> CgnStatusUpsertRequest
     \<Rightarrow> effect list \<times> response" where
  "UpsertCgnStatusHandler findLastVersionByModelId checkUpdateCgnIsRunning client logPrefix now
       fc cgnStatusUpsertRequest =
     (let orchestratorId = makeUpdateCgnOrchestratorId fc REVOKED;
          cgnStatus = toCgnStatus now cgnStatusUpsertRequest;
          orchestratorInput = \<lparr>fiscalCode = fc, newStatus = cgnStatus\<rparr>
      in
      if \<not> CgnStatusRevocationRequest_is cgnStatusUpsertRequest
      then ([], ResponseErrorForbiddenNotAuthorized)
      else
       (case findLastVersionByModelId fc of
          Inl _ \<Rightarrow>
            ([FindLastVersionByModelId fc],
             ResponseErrorInternal ''Cannot retrieve CGN infos for this user'')
        | Inr None \<Rightarrow>
            ([FindLastVersionByModelId fc],
             ResponseErrorNotFound ''Not Found'' ''User's CGN status not found'')
        | Inr (Some _) \<Rightarrow>
           (case checkUpdateCgnIsRunning fc cgnStatus of
              Inl response \<Rightarrow>
                ([FindLastVersionByModelId fc, CheckUpdateCgnIsRunning fc cgnStatus], response)
            | Inr _ \<Rightarrow>
               (case startNew client ''UpdateCgnOrchestrator'' orchestratorId orchestratorInput of
                  Inl e \<Rightarrow>
                    ([FindLastVersionByModelId fc, CheckUpdateCgnIsRunning fc cgnStatus,
                      StartNew ''UpdateCgnOrchestrator'' orchestratorId orchestratorInput,
                      LogError (logPrefix @ ''|Cannot start UpdateCgnOrchestrator|ERROR=''
                                @ message (toError e))],
                     ResponseErrorInternal ''Cannot start UpdateCgnOrchestrator'')
                | Inr _ \<Rightarrow>
                    ([FindLastVersionByModelId fc, CheckUpdateCgnIsRunning fc cgnStatus,
                      StartNew ''UpdateCgnOrchestrator'' orchestratorId orchestratorInput],
                     ResponseSuccessRedirectToResource orchestratorId
                       (''/api/v1/cgn/status/'' @ fc) orchestratorId)))))"

section \<open>Deleting all versions of a card (DeleteEycaActivity)\<close>

text \<open>The calls the activity makes on the card store, in order.\<close>

datatype 'card store_call = FindAll FiscalCode | DeleteVersion 'card

text \<open>
  Modelled from the spec: the delete loop of \<^verbatim>\<open>getDeleteEycaActivityHandler\<close>, whose file
  DeleteEycaActivity/handler.ts is not among the sources. The activity attempts to delete
  each record in turn, and the first delete that fails aborts the loop: the result is the
  deletes attempted and the error of the failing one, if any.
\<close>

fun deleteVersions ::
  "('card \<Rightarrow> error + string) \<Rightarrow> 'card list \<Rightarrow> 'card store_call list \<times> error option" where
  "deleteVersions deleteVersion [] = ([], None)"
| "deleteVersions deleteVersion (eycaCard # cards) =
     (case deleteVersion eycaCard of
        Inl err \<Rightarrow> ([DeleteVersion eycaCard], Some err)
      | Inr _ \<Rightarrow>
          (let (calls, failure) = deleteVersions deleteVersion cards
           in (DeleteVersion eycaCard # calls, failure)))"

text \<open>
  Modelled from the spec: \<^verbatim>\<open>getDeleteEycaActivityHandler\<close>, missing with its file. The
  activity lists all the records of the user with \<^verbatim>\<open>findAll\<close> and runs the delete loop
  over them; a failure of \<^verbatim>\<open>findAll\<close>, or the first failure of a delete, is reported as
  \<^verbatim>\<open>{kind: "FAILURE", reason}\<close> with the underlying error's message, and
  \<^verbatim>\<open>{kind: "SUCCESS"}\<close> is returned when every delete succeeds. The argument is the
  decoded input's \<^verbatim>\<open>fiscalCode\<close>.
\<close>

definition getDeleteEycaActivityHandler ::
  "(FiscalCode \<Rightarrow> error + 'card list) \<Rightarrow> ('card \<Rightarrow> error + string) \<Rightarrow> FiscalCode
     \<Rightarrow> 'card store_call list \<times> ActivityResult" where
  "getDeleteEycaActivityHandler findAll deleteVersion fc =
     (case findAll fc of
        Inl err \<Rightarrow> ([FindAll fc], FAILURE (message err))
      | Inr cards \<Rightarrow>
          (let (calls, failure) = deleteVersions deleteVersion cards
           in (FindAll fc # calls,
               (case failure of
                  Some err \<Rightarrow> FAILURE (message err)
                | None \<Rightarrow> SUCCESS))))"

section \<open>Redis storage (utils/redis\_storage)\<close>

text \<open>\<^verbatim>\<open>singleStringReply\<close>: an error wins; otherwise the reply is compared with "OK".\<close>

definition singleStringReply :: "error option \<Rightarrow> string option \<Rightarrow> error + bool" where
  "singleStringReply err reply =
     (case err of
        Some e \<Rightarrow> Inl e
      | None \<Rightarrow> Inr (reply = Some ''OK''))"

definition falsyResponseToError :: "error + bool \<Rightarrow> error \<Rightarrow> error + bool" where
  "falsyResponseToError response err =
     (case response of
        Inl e \<Rightarrow> Inl e
      | Inr b \<Rightarrow> if b then Inr True else Inl err)"

text \<open>
  What \<^verbatim>\<open>redisClient.set(key, value, "EX", seconds, callback)\<close> does: it throws, which
  rejects the promise around it, or it calls back with an error or with a reply.
\<close>

datatype redis_set_outcome = SetThrows thrown | SetCallback "error option" "string option"

text \<open>
  \<^verbatim>\<open>setWithExpirationTask\<close>. The error for a reply that is not "OK" takes the message
  \<^verbatim>\<open>errorMsg ? errorMsg : "Error setting key value pair on redis"\<close>: the test is
  JavaScript's truthiness, which an absent and an empty string both fail.
\<close>

definition setWithExpirationTask ::
  "(string \<Rightarrow> string \<Rightarrow> string \<Rightarrow> int \<Rightarrow> redis_set_outcome) \<Rightarrow> string \<Rightarrow> string \<Rightarrow> int
     \<Rightarrow> string option \<Rightarrow> error + bool" where
  "setWithExpirationTask redisClient_set key val expirationInSeconds errorMsg =
     (case redisClient_set key val ''EX'' expirationInSeconds of
        SetThrows e \<Rightarrow> Inl (toError e)
      | SetCallback err response \<Rightarrow>
          falsyResponseToError (singleStringReply err response)
            (Error (case errorMsg of
                      Some m \<Rightarrow> if m \<noteq> [] then m else ''Error setting key value pair on redis''
                    | None \<Rightarrow> ''Error setting key value pair on redis'')))"

section \<open>Configuration (utils/config)\<close>

definition DEFAULT_CGN_UPPER_BOUND_AGE :: int where
  "DEFAULT_CGN_UPPER_BOUND_AGE = 36"

definition DEFAULT_EYCA_UPPER_BOUND_AGE :: int where
  "DEFAULT_EYCA_UPPER_BOUND_AGE = 31"

text \<open>
  The validated configuration, \<^verbatim>\<open>IConfig\<close>: the required settings, and the optional ones
  of \<^verbatim>\<open>RedisParams\<close>.
\<close>

record IConfig =
  APPINSIGHTS_INSTRUMENTATIONKEY :: string
  CGN_EXPIRATION_TABLE_NAME :: string
  EYCA_EXPIRATION_TABLE_NAME :: string
  CGN_UPPER_BOUND_AGE :: int
  EYCA_UPPER_BOUND_AGE :: int
  COSMOSDB_CGN_DATABASE_NAME :: string
  COSMOSDB_CGN_KEY :: string
  COSMOSDB_CGN_URI :: string
  AzureWebJobsStorage :: string
  CGN_STORAGE_CONNECTION_STRING :: string
  EYCA_API_BASE_URL :: string
  EYCA_API_PASSWORD :: string
  EYCA_API_USERNAME :: string
  OTP_TTL_IN_SECONDS :: int
  isProduction :: bool
  REDIS_URL :: string
  REDIS_CLUSTER_ENABLED :: "bool option"
  REDIS_PASSWORD :: "string option"
  REDIS_PORT :: "string option"
  REDIS_TLS_ENABLED :: "bool option"

text \<open>
  \<^verbatim>\<open>process.env\<close> is a map from names to strings. \<^verbatim>\<open>IntegerFromString.decode\<close> belongs to
  ts-commons: it fails on a value that is not a string, and how it reads an integer out of
  a string is the argument \<open>integerOfString\<close>.
\<close>

type_synonym env = "string \<Rightarrow> string option"

definition IntegerFromString_decode :: "(string \<Rightarrow> int option) \<Rightarrow> string option \<Rightarrow> int option" where
  "IntegerFromString_decode integerOfString u =
     (case u of None \<Rightarrow> None | Some s \<Rightarrow> integerOfString s)"

text \<open>The three numbers handed to \<^verbatim>\<open>IConfig.decode\<close>: the decoded variable, or the default.\<close>

definition CGN_UPPER_BOUND_AGE_input :: "(string \<Rightarrow> int option) \<Rightarrow> env \<Rightarrow> int" where
  "CGN_UPPER_BOUND_AGE_input integerOfString env =
     (case IntegerFromString_decode integerOfString (env ''CGN_UPPER_BOUND_AGE'') of
        Some n \<Rightarrow> n
      | None \<Rightarrow> DEFAULT_CGN_UPPER_BOUND_AGE)"

definition EYCA_UPPER_BOUND_AGE_input :: "(string \<Rightarrow> int option) \<Rightarrow> env \<Rightarrow> int" where
  "EYCA_UPPER_BOUND_AGE_input integerOfString env =
     (case IntegerFromString_decode integerOfString (env ''EYCA_UPPER_BOUND_AGE'') of
        Some n \<Rightarrow> n
      | None \<Rightarrow> DEFAULT_EYCA_UPPER_BOUND_AGE)"

definition OTP_TTL_IN_SECONDS_input :: "(string \<Rightarrow> int option) \<Rightarrow> env \<Rightarrow> int" where
  "OTP_TTL_IN_SECONDS_input integerOfString env =
     (case IntegerFromString_decode integerOfString (env ''OTP_TTL_IN_SECONDS'') of
        Some n \<Rightarrow> n
      | None \<Rightarrow> 600)"

text \<open>
  \<^verbatim>\<open>_.toLowerCase() === "true"\<close>: the letters A to Z are lowered; no other character
  lowers to a letter of "true".
\<close>

definition toLowerCase :: "string \<Rightarrow> string" where
  "toLowerCase s =
     map (\<lambda>c. case map_of (zip ''ABCDEFGHIJKLMNOPQRSTUVWXYZ'' ''abcdefghijklmnopqrstuvwxyz'') c of
                Some l \<Rightarrow> l
              | None \<Rightarrow> c) s"

definition boolean_flag :: "string option \<Rightarrow> bool option" where
  "boolean_flag u = (case u of None \<Rightarrow> None | Some s \<Rightarrow> Some (toLowerCase s = ''true''))"

text \<open>
  \<^verbatim>\<open>IConfig.decode\<close>, as the names of the settings that fail validation: a required
  \<^verbatim>\<open>NonEmptyString\<close> that is missing or empty, a \<^verbatim>\<open>NonNegativeInteger\<close> that is negative,
  an optional \<^verbatim>\<open>NonEmptyString\<close> that is present and empty. The booleans are always
  valid.
\<close>

definition required_strings :: "string list" where
  "required_strings =
     [''APPINSIGHTS_INSTRUMENTATIONKEY'', ''CGN_EXPIRATION_TABLE_NAME'',
      ''EYCA_EXPIRATION_TABLE_NAME'', ''COSMOSDB_CGN_DATABASE_NAME'', ''COSMOSDB_CGN_KEY'',
      ''COSMOSDB_CGN_URI'', ''AzureWebJobsStorage'', ''CGN_STORAGE_CONNECTION_STRING'',
      ''EYCA_API_BASE_URL'', ''EYCA_API_PASSWORD'', ''EYCA_API_USERNAME'', ''REDIS_URL'']"

definition NonEmptyString_is :: "string option \<Rightarrow> bool" where
  "NonEmptyString_is u = (case u of None \<Rightarrow> False | Some s \<Rightarrow> s \<noteq> [])"

definition config_errors :: "(string \<Rightarrow> int option) \<Rightarrow> env \<Rightarrow> string list" where
  "config_errors integerOfString env =
     filter (\<lambda>k. \<not> NonEmptyString_is (env k)) required_strings
     @ (if CGN_UPPER_BOUND_AGE_input integerOfString env < 0 then [''CGN_UPPER_BOUND_AGE''] else [])
     @ (if EYCA_UPPER_BOUND_AGE_input integerOfString env < 0 then [''EYCA_UPPER_BOUND_AGE''] else [])
     @ (if OTP_TTL_IN_SECONDS_input integerOfString env < 0 then [''OTP_TTL_IN_SECONDS''] else [])
     @ filter (\<lambda>k. env k = Some []) [''REDIS_PASSWORD'', ''REDIS_PORT'']"

definition string_value :: "env \<Rightarrow> string \<Rightarrow> string" where
  "string_value env k = (case env k of None \<Rightarrow> [] | Some s \<Rightarrow> s)"

definition errorOrConfig :: "(string \<Rightarrow> int option) \<Rightarrow> env \<Rightarrow> string list + IConfig" where
  "errorOrConfig integerOfString env =
     (let errors = config_errors integerOfString env in
      if errors \<noteq> [] then Inl errors
      else Inr
        \<lparr>APPINSIGHTS_INSTRUMENTATIONKEY = string_value env ''APPINSIGHTS_INSTRUMENTATIONKEY'',
         CGN_EXPIRATION_TABLE_NAME = string_value env ''CGN_EXPIRATION_TABLE_NAME'',
         EYCA_EXPIRATION_TABLE_NAME = string_value env ''EYCA_EXPIRATION_TABLE_NAME'',
         CGN_UPPER_BOUND_AGE = CGN_UPPER_BOUND_AGE_input integerOfString env,
         EYCA_UPPER_BOUND_AGE = EYCA_UPPER_BOUND_AGE_input integerOfString env,
         COSMOSDB_CGN_DATABASE_NAME = string_value env ''COSMOSDB_CGN_DATABASE_NAME'',
         COSMOSDB_CGN_KEY = string_value env ''COSMOSDB_CGN_KEY'',
         COSMOSDB_CGN_URI = string_value env ''COSMOSDB_CGN_URI'',
         AzureWebJobsStorage = string_value env ''AzureWebJobsStorage'',
         CGN_STORAGE_CONNECTION_STRING = string_value env ''CGN_STORAGE_CONNECTION_STRING'',
         EYCA_API_BASE_URL = string_value env ''EYCA_API_BASE_URL'',
         EYCA_API_PASSWORD = string_value env ''EYCA_API_PASSWORD'',
         EYCA_API_USERNAME = string_value env ''EYCA_API_USERNAME'',
         OTP_TTL_IN_SECONDS = OTP_TTL_IN_SECONDS_input integerOfString env,
         isProduction = (env ''NODE_ENV'' = Some ''production''),
         REDIS_URL = string_value env ''REDIS_URL'',
         REDIS_CLUSTER_ENABLED = boolean_flag (env ''REDIS_CLUSTER_ENABLED''),
         REDIS_PASSWORD = env ''REDIS_PASSWORD'',
         REDIS_PORT = env ''REDIS_PORT'',
         REDIS_TLS_ENABLED = boolean_flag (env ''REDIS_TLS_ENABLED'')\<rparr>)"

text \<open>
  \<^verbatim>\<open>getConfigOrThrow\<close>: the configuration, or the error it throws; \<^verbatim>\<open>readableReport\<close>
  (of ts-commons) renders the validation errors.
\<close>

definition getConfigOrThrow ::
  "(string list \<Rightarrow> string) \<Rightarrow> (string \<Rightarrow> int option) \<Rightarrow> env \<Rightarrow> error + IConfig" where
  "getConfigOrThrow readableReport integerOfString env =
     (case errorOrConfig integerOfString env of
        Inl errors \<Rightarrow> Inl (Error (''Invalid configuration: '' @ readableReport errors))
      | Inr config \<Rightarrow> Inr config)"

section \<open>Failure classifier\<close>

text \<open>
  C4. For every error and optional custom reason, \<^verbatim>\<open>toTransientFailure\<close> returns a failure
  of kind TRANSIENT whose reason is "TRANSIENT FAILURE|ERROR=<customReason> DETAIL=<message>"
  when a custom reason is given and "TRANSIENT FAILURE|ERROR=<message>" otherwise;
  \<^verbatim>\<open>toPermanentFailure\<close> returns kind PERMANENT with the same reason shape after the prefix
  "PERMANENT FAILURE|".
\<close>

theorem classify_failure_reason:
  "toTransientFailure (Error msg) (Some custom) =
     \<lparr>kind = TRANSIENT, reason = ''TRANSIENT FAILURE|ERROR='' @ custom @ '' DETAIL='' @ msg\<rparr>
   \<and> toTransientFailure (Error msg) None =
     \<lparr>kind = TRANSIENT, reason = ''TRANSIENT FAILURE|ERROR='' @ msg\<rparr>
   \<and> toPermanentFailure (Error msg) (Some custom) =
     \<lparr>kind = PERMANENT, reason = ''PERMANENT FAILURE|ERROR='' @ custom @ '' DETAIL='' @ msg\<rparr>
   \<and> toPermanentFailure (Error msg) None =
     \<lparr>kind = PERMANENT, reason = ''PERMANENT FAILURE|ERROR='' @ msg\<rparr>"
  by (simp add: toTransientFailure_def toPermanentFailure_def errorMsg_of_def)

text \<open>
  C5. \<^verbatim>\<open>trackFailure\<close> on any failure: a transient failure makes it throw an error carrying
  the failure's reason (no value is returned); a permanent failure makes it return
  \<^verbatim>\<open>{kind: "FAILURE", reason}\<close> with that failure's reason; every failure is one of the two.
\<close>

theorem trackFailure_throws_or_returns:
  "(kind err = TRANSIENT \<and> snd (trackFailure logPrefix err) = Inl (Error (reason err)))
   \<or> (kind err = PERMANENT \<and> snd (trackFailure logPrefix err) = Inr (FAILURE (reason err)))"
  by (cases "kind err") (simp_all add: trackFailure_def TransientFailure_is_def)


section \<open>Instance registry\<close>

text \<open>
  C1. The instance id is a function of the user id and the target status alone (the model
  takes no other input and touches no state, so equal inputs give equal ids). For one
  user the REVOKE and EXPIRE targets give the same id, of the form "{userId}-REVOKE",
  which is the id \<^verbatim>\<open>makeRevokeCgnOrchestratorId\<close> builds; ACTIVATE gives a different id.
\<close>

theorem instanceId_namespaces:
  "makeRevokeCgnOrchestratorId userId = userId @ ''-REVOKE''
   \<and> makeUpdateCgnOrchestratorId userId REVOKED = userId @ ''-REVOKE''
   \<and> makeUpdateCgnOrchestratorId userId EXPIRED = userId @ ''-REVOKE''
   \<and> makeUpdateCgnOrchestratorId userId ACTIVATED \<noteq> makeUpdateCgnOrchestratorId userId REVOKED
   \<and> makeUpdateCgnOrchestratorId userId ACTIVATED \<noteq> makeUpdateCgnOrchestratorId userId EXPIRED"
  by (simp add: makeRevokeCgnOrchestratorId_def)

text \<open>
  C8. \<^verbatim>\<open>isOrchestratorRunning\<close>: when \<^verbatim>\<open>getStatus\<close> resolves to a status, the result is
  that status with the flag \<^verbatim>\<open>isRunning\<close>, which is true exactly when the runtime status
  is Running or Pending; when \<^verbatim>\<open>getStatus\<close> throws, the result is a Left carrying the
  error.
\<close>

theorem isOrchestratorRunning_flag:
  "(getStatus client orchestratorId = Inr status \<longrightarrow>
      (\<exists>r. isOrchestratorRunning client orchestratorId = Inr r
         \<and> instanceId r = instanceId status
         \<and> runtimeStatus r = runtimeStatus status
         \<and> (isRunning r \<longleftrightarrow> runtimeStatus status = Running \<or> runtimeStatus status = Pending)))
   \<and> (getStatus client orchestratorId = Inl (ThrownError e) \<longrightarrow>
        isOrchestratorRunning client orchestratorId = Inl e)
   \<and> (getStatus client orchestratorId = Inl (ThrownOther s) \<longrightarrow>
        isOrchestratorRunning client orchestratorId = Inl (Error s))"
  by (simp add: isOrchestratorRunning_def DurableOrchestrationStatusRunning.fields_def
        DurableOrchestrationStatus.defs)

theorem isOrchestratorRunning_flag_witness:
  "(\<exists>r. isOrchestratorRunning
          \<lparr>getStatus = (\<lambda>i. Inr \<lparr>instanceId = i, runtimeStatus = Pending\<rparr>),
           startNew = (\<lambda>n i x. Inr i), terminate = (\<lambda>i r. Inr ())\<rparr>
          ''RODFDS82S10H501T-REVOKE'' = Inr r
        \<and> instanceId r = ''RODFDS82S10H501T-REVOKE'' \<and> runtimeStatus r = Pending \<and> isRunning r)
   \<and> isOrchestratorRunning
        \<lparr>getStatus = (\<lambda>i. Inl (ThrownError (Error ''host unreachable''))),
         startNew = (\<lambda>n i x. Inr i), terminate = (\<lambda>i r. Inr ())\<rparr>
        ''RODFDS82S10H501T-REVOKE'' = Inl (Error ''host unreachable'')
   \<and> isOrchestratorRunning
        \<lparr>getStatus = (\<lambda>i. Inl (ThrownOther ''timeout'')),
         startNew = (\<lambda>n i x. Inr i), terminate = (\<lambda>i r. Inr ())\<rparr>
        ''RODFDS82S10H501T-REVOKE'' = Inl (Error ''timeout'')"
  using
    isOrchestratorRunning_flag
      [of "\<lparr>getStatus = (\<lambda>i. Inr \<lparr>instanceId = i, runtimeStatus = Pending\<rparr>),
            startNew = (\<lambda>n i x. Inr i), terminate = (\<lambda>i r. Inr ())\<rparr>"
          "''RODFDS82S10H501T-REVOKE''"
          "\<lparr>instanceId = ''RODFDS82S10H501T-REVOKE'', runtimeStatus = Pending\<rparr>"]
    isOrchestratorRunning_flag
      [of "\<lparr>getStatus = (\<lambda>i. Inl (ThrownError (Error ''host unreachable''))),
            startNew = (\<lambda>n i x. Inr i), terminate = (\<lambda>i r. Inr ())\<rparr>"
          "''RODFDS82S10H501T-REVOKE''" _ "Error ''host unreachable''"]
    isOrchestratorRunning_flag
      [of "\<lparr>getStatus = (\<lambda>i. Inl (ThrownOther ''timeout'')),
            startNew = (\<lambda>n i x. Inr i), terminate = (\<lambda>i r. Inr ())\<rparr>"
          "''RODFDS82S10H501T-REVOKE''" _ _ "''timeout''"]
  by simp


section \<open>Expiration scanner\<close>

text \<open>
  C7. When the query for the users whose card expires today fails, the sweep writes one
  log line with the error and ends: no callback runs, so no instance is terminated and no
  orchestration is started.
\<close>

theorem sweep_query_failure_starts_nothing:
  "getExpiredCgnUsers today = Inl err \<Longrightarrow>
   getUpdateExpiredCgnHandler getExpiredCgnUsers client logPrefix today =
     ([LogVerbose (logPrefix @ ''|ERROR='' @ message err)], [])"
  by (simp add: getUpdateExpiredCgnHandler_def)

theorem sweep_query_failure_starts_nothing_witness:
  "getUpdateExpiredCgnHandler (\<lambda>day. Inl (Error ''table unavailable''))
     \<lparr>getStatus = (\<lambda>i. Inr \<lparr>instanceId = i, runtimeStatus = Running\<rparr>),
      startNew = (\<lambda>n i x. Inr i), terminate = (\<lambda>i r. Inr ())\<rparr>
     ''UpdateExpiredCgnHandler'' ''2024-03-01'' =
     ([LogVerbose ''UpdateExpiredCgnHandler|ERROR=table unavailable''], [])"
  using sweep_query_failure_starts_nothing
    [of "\<lambda>day. Inl (Error ''table unavailable'')" "''2024-03-01''" "Error ''table unavailable''"
        "\<lparr>getStatus = (\<lambda>i. Inr \<lparr>instanceId = i, runtimeStatus = Running\<rparr>),
          startNew = (\<lambda>n i x. Inr i), terminate = (\<lambda>i r. Inr ())\<rparr>"
        "''UpdateExpiredCgnHandler''"]
  by simp

text \<open>The effects of one user's callback, written out.\<close>

lemma callback_effects:
  "expiredCgnUser_callback client logPrefix fc =
     [Terminate (makeUpdateCgnOrchestratorId fc ACTIVATED)
        ''An highest priority CGN update orchestrator needs to start'',
      Terminate (makeUpdateCgnOrchestratorId fc REVOKED)
        ''An highest priority CGN update orchestrator needs to start'',
      LogInfo (logPrefix @ ''| Starting new expire orchestrator for fiscalCode='' @ take 6 fc),
      StartNew ''UpdateCgnOrchestrator'' (makeUpdateCgnOrchestratorId fc EXPIRED)
        \<lparr>fiscalCode = fc, newStatus = CgnExpiredStatus\<rparr>]
     @ (case startNew client ''UpdateCgnOrchestrator'' (makeUpdateCgnOrchestratorId fc EXPIRED)
               \<lparr>fiscalCode = fc, newStatus = CgnExpiredStatus\<rparr> of
          Inl e \<Rightarrow>
            [LogError (logPrefix @ ''|Error while starting CGN expiration for fiscalCode=''
                       @ take 6 fc @ ''|ERROR='' @ message (toError e))]
        | Inr _ \<Rightarrow> [])"
  by (simp add: expiredCgnUser_callback_def terminateOrchestratorTask_def
        ORCHESTRATION_TERMINATION_REASON_def Let_def)

text \<open>
  C2, as stated: for every user found, the sweep calls terminate on the ACTIVATED and on
  the REVOKED instance with the reason "a higher-priority status update needs to start",
  then starts the EXPIRED orchestration, and a failed terminate is logged. On one user
  whose two terminations both fail, the reason passed is another string, and no log line
  reports the failures.
\<close>

theorem sweep_terminate_reason_counterexample:
  "getUpdateExpiredCgnHandler (\<lambda>day. Inr [''RODFDS82S10H501T''])
     \<lparr>getStatus = (\<lambda>i. Inr \<lparr>instanceId = i, runtimeStatus = Running\<rparr>),
      startNew = (\<lambda>n i x. Inr i),
      terminate = (\<lambda>i r. Inl (ThrownError (Error ''no such instance'')))\<rparr>
     ''UpdateExpiredCgnHandler'' ''2024-03-01''
   = ([LogInfo ''UpdateExpiredCgnHandler|Processing 1 expired CGNs''],
      [[Terminate ''RODFDS82S10H501T-ACTIVATE''
          ''An highest priority CGN update orchestrator needs to start'',
        Terminate ''RODFDS82S10H501T-REVOKE''
          ''An highest priority CGN update orchestrator needs to start'',
        LogInfo ''UpdateExpiredCgnHandler| Starting new expire orchestrator for fiscalCode=RODFDS'',
        StartNew ''UpdateCgnOrchestrator'' ''RODFDS82S10H501T-REVOKE''
          \<lparr>fiscalCode = ''RODFDS82S10H501T'', newStatus = CgnExpiredStatus\<rparr>]])
   \<and> Terminate ''RODFDS82S10H501T-ACTIVATE'' ''a higher-priority status update needs to start''
       \<notin> set (concat (snd (getUpdateExpiredCgnHandler (\<lambda>day. Inr [''RODFDS82S10H501T''])
           \<lparr>getStatus = (\<lambda>i. Inr \<lparr>instanceId = i, runtimeStatus = Running\<rparr>),
            startNew = (\<lambda>n i x. Inr i),
            terminate = (\<lambda>i r. Inl (ThrownError (Error ''no such instance'')))\<rparr>
           ''UpdateExpiredCgnHandler'' ''2024-03-01'')))
   \<and> ORCHESTRATION_TERMINATION_REASON \<noteq> ''a higher-priority status update needs to start''"
  by (simp add: getUpdateExpiredCgnHandler_def expiredCgnUser_callback_def
        terminateOrchestratorTask_def ORCHESTRATION_TERMINATION_REASON_def
        makeRevokeCgnOrchestratorId_def string_of_nat.simps)

text \<open>
  C2, amended: for every user found, the user's callback calls terminate on the ACTIVATED
  and then on the REVOKED instance, both with the reason
  "An highest priority CGN update orchestrator needs to start", then logs and starts the
  EXPIRED orchestration (logging an error when the start throws). What the two terminate
  calls resolve to is dropped: it changes neither the log nor what is started.
\<close>

theorem sweep_terminates_then_starts:
  assumes "getExpiredCgnUsers today = Inr users" and "i < length users"
  shows "length (snd (getUpdateExpiredCgnHandler getExpiredCgnUsers client logPrefix today))
           = length users
     \<and> snd (getUpdateExpiredCgnHandler getExpiredCgnUsers client logPrefix today) ! i =
         [Terminate (makeUpdateCgnOrchestratorId (users ! i) ACTIVATED)
            ''An highest priority CGN update orchestrator needs to start'',
          Terminate (makeUpdateCgnOrchestratorId (users ! i) REVOKED)
            ''An highest priority CGN update orchestrator needs to start'',
          LogInfo (logPrefix @ ''| Starting new expire orchestrator for fiscalCode=''
                   @ take 6 (users ! i)),
          StartNew ''UpdateCgnOrchestrator'' (makeUpdateCgnOrchestratorId (users ! i) EXPIRED)
            \<lparr>fiscalCode = users ! i, newStatus = CgnExpiredStatus\<rparr>]
         @ (case startNew client ''UpdateCgnOrchestrator''
                   (makeUpdateCgnOrchestratorId (users ! i) EXPIRED)
                   \<lparr>fiscalCode = users ! i, newStatus = CgnExpiredStatus\<rparr> of
              Inl e \<Rightarrow>
                [LogError (logPrefix @ ''|Error while starting CGN expiration for fiscalCode=''
                           @ take 6 (users ! i) @ ''|ERROR='' @ message (toError e))]
            | Inr _ \<Rightarrow> [])
     \<and> getUpdateExpiredCgnHandler getExpiredCgnUsers (client\<lparr>terminate := outcome\<rparr>) logPrefix today
         = getUpdateExpiredCgnHandler getExpiredCgnUsers client logPrefix today"
proof -
  have same: "expiredCgnUser_callback (client\<lparr>terminate := outcome\<rparr>) logPrefix fc
                = expiredCgnUser_callback client logPrefix fc" for fc
    by (simp add: callback_effects)
  from assms show ?thesis
    by (simp add: getUpdateExpiredCgnHandler_def same callback_effects)
qed

theorem sweep_terminates_then_starts_witness:
  "getUpdateExpiredCgnHandler (\<lambda>day. Inr [''RODFDS82S10H501T''])
     \<lparr>getStatus = (\<lambda>i. Inr \<lparr>instanceId = i, runtimeStatus = Running\<rparr>),
      startNew = (\<lambda>n i x. Inl (ThrownOther ''busy'')),
      terminate = (\<lambda>i r. Inl (ThrownError (Error ''no such instance'')))\<rparr>
     ''UpdateExpiredCgnHandler'' ''2024-03-01''
   = getUpdateExpiredCgnHandler (\<lambda>day. Inr [''RODFDS82S10H501T''])
     \<lparr>getStatus = (\<lambda>i. Inr \<lparr>instanceId = i, runtimeStatus = Running\<rparr>),
      startNew = (\<lambda>n i x. Inl (ThrownOther ''busy'')),
      terminate = (\<lambda>i r. Inr ())\<rparr>
     ''UpdateExpiredCgnHandler'' ''2024-03-01''
   \<and> snd (getUpdateExpiredCgnHandler (\<lambda>day. Inr [''RODFDS82S10H501T''])
     \<lparr>getStatus = (\<lambda>i. Inr \<lparr>instanceId = i, runtimeStatus = Running\<rparr>),
      startNew = (\<lambda>n i x. Inl (ThrownOther ''busy'')),
      terminate = (\<lambda>i r. Inr ())\<rparr>
     ''UpdateExpiredCgnHandler'' ''2024-03-01'') ! 0 =
     [Terminate ''RODFDS82S10H501T-ACTIVATE''
        ''An highest priority CGN update orchestrator needs to start'',
      Terminate ''RODFDS82S10H501T-REVOKE''
        ''An highest priority CGN update orchestrator needs to start'',
      LogInfo ''UpdateExpiredCgnHandler| Starting new expire orchestrator for fiscalCode=RODFDS'',
      StartNew ''UpdateCgnOrchestrator'' ''RODFDS82S10H501T-REVOKE''
        \<lparr>fiscalCode = ''RODFDS82S10H501T'', newStatus = CgnExpiredStatus\<rparr>,
      LogError ''UpdateExpiredCgnHandler|Error while starting CGN expiration for fiscalCode=RODFDS|ERROR=busy'']"
  using sweep_terminates_then_starts
    [of "\<lambda>day. Inr [''RODFDS82S10H501T'']" "''2024-03-01''" "[''RODFDS82S10H501T'']" 0
        "\<lparr>getStatus = (\<lambda>i. Inr \<lparr>instanceId = i, runtimeStatus = Running\<rparr>),
          startNew = (\<lambda>n i x. Inl (ThrownOther ''busy'')),
          terminate = (\<lambda>i r. Inr ())\<rparr>"
        "''UpdateExpiredCgnHandler''"
        "\<lambda>i r. Inl (ThrownError (Error ''no such instance''))"]
  by (simp add: makeRevokeCgnOrchestratorId_def)

section \<open>Status-change requests\<close>

text \<open>
  C3, as stated: a request with action ACTIVATE and no revocation reason is accepted, not
  answered with Forbidden, and the orchestration started for it receives the status
  PENDING. With a card on record, no orchestration running and a client that starts
  orchestrations, the handler answers such a request with Forbidden and does nothing else.
\<close>

theorem upsert_activate_counterexample:
  "UpsertCgnStatusHandler (\<lambda>fc. Inr (Some ())) (\<lambda>fc st. Inr ())
     \<lparr>getStatus = (\<lambda>i. Inr \<lparr>instanceId = i, runtimeStatus = Completed\<rparr>),
      startNew = (\<lambda>n i x. Inr i), terminate = (\<lambda>i r. Inr ())\<rparr>
     ''UpsertCgnStatusHandler'' 1709251200000 ''RODFDS82S10H501T''
     \<lparr>action = ACTIVATE, revocation_reason = None\<rparr>
   = ([], ResponseErrorForbiddenNotAuthorized)"
  by (simp add: UpsertCgnStatusHandler_def CgnStatusRevocationRequest_is_def Let_def)

text \<open>
  C3, amended: the handler answers every request that is not a revocation request (action
  REVOKE with a revocation reason), and so every request with action ACTIVATE, with
  Forbidden, before it reads the card store, and starts no orchestration for it; a
  revocation request passes the gate and the card store is read. \<^verbatim>\<open>toCgnStatus\<close> maps an
  ACTIVATE request to the status PENDING, but every orchestration the handler starts is for
  a revocation request, under the REVOKE instance id, and receives the status REVOKED with
  the revocation date and reason. A Forbidden answer comes from a request that fails the
  gate, or is the answer of the running-orchestration guard passed on unchanged.
\<close>

theorem upsert_accepts_revocations_only:
  "(\<not> CgnStatusRevocationRequest_is req \<longrightarrow>
      UpsertCgnStatusHandler findLast checkRunning client logPrefix now fc req
        = ([], ResponseErrorForbiddenNotAuthorized))
   \<and> (action req = ACTIVATE \<longrightarrow>
      UpsertCgnStatusHandler findLast checkRunning client logPrefix now fc req
        = ([], ResponseErrorForbiddenNotAuthorized))
   \<and> (action req = ACTIVATE \<longrightarrow> toCgnStatus now req = CgnPendingStatus)
   \<and> (CgnStatusRevocationRequest_is req \<longrightarrow>
        (\<exists>effects. fst (UpsertCgnStatusHandler findLast checkRunning client logPrefix now fc req)
           = FindLastVersionByModelId fc # effects))
   \<and> (StartNew name orchestratorId orchestratorInput
         \<in> set (fst (UpsertCgnStatusHandler findLast checkRunning client logPrefix now fc req))
       \<longrightarrow> CgnStatusRevocationRequest_is req
           \<and> action req = REVOKE
           \<and> name = ''UpdateCgnOrchestrator''
           \<and> orchestratorId = makeUpdateCgnOrchestratorId fc REVOKED
           \<and> orchestratorInput =
               \<lparr>fiscalCode = fc, newStatus = CgnRevokedStatus now (revocation_reason req)\<rparr>)
   \<and> (snd (UpsertCgnStatusHandler findLast checkRunning client logPrefix now fc req)
         = ResponseErrorForbiddenNotAuthorized
       \<longrightarrow> \<not> CgnStatusRevocationRequest_is req
           \<or> checkRunning fc (toCgnStatus now req) = Inl ResponseErrorForbiddenNotAuthorized)"
proof (cases "CgnStatusRevocationRequest_is req")
  case False
  then have "action req = ACTIVATE \<longrightarrow> toCgnStatus now req = CgnPendingStatus"
    by (simp add: toCgnStatus_def)
  with False show ?thesis
    by (simp add: UpsertCgnStatusHandler_def Let_def)
next
  case True
  then have "action req = REVOKE"
    by (simp add: CgnStatusRevocationRequest_is_def)
  with True show ?thesis
    by (auto simp add: UpsertCgnStatusHandler_def toCgnStatus_def Let_def
          split: sum.splits option.splits)
qed

theorem upsert_accepts_revocations_only_witness:
  "UpsertCgnStatusHandler (\<lambda>fc. Inr (Some ())) (\<lambda>fc st. Inr ())
      \<lparr>getStatus = (\<lambda>i. Inr \<lparr>instanceId = i, runtimeStatus = Completed\<rparr>),
       startNew = (\<lambda>n i x. Inr i), terminate = (\<lambda>i r. Inr ())\<rparr>
      ''UpsertCgnStatusHandler'' 1709251200000 ''RODFDS82S10H501T''
      \<lparr>action = ACTIVATE, revocation_reason = None\<rparr>
     = ([], ResponseErrorForbiddenNotAuthorized)
   \<and> UpsertCgnStatusHandler (\<lambda>fc. Inr (Some ())) (\<lambda>fc st. Inr ())
      \<lparr>getStatus = (\<lambda>i. Inr \<lparr>instanceId = i, runtimeStatus = Completed\<rparr>),
       startNew = (\<lambda>n i x. Inr i), terminate = (\<lambda>i r. Inr ())\<rparr>
      ''UpsertCgnStatusHandler'' 1709251200000 ''RODFDS82S10H501T''
      \<lparr>action = REVOKE, revocation_reason = None\<rparr>
     = ([], ResponseErrorForbiddenNotAuthorized)
   \<and> toCgnStatus 1709251200000 \<lparr>action = ACTIVATE, revocation_reason = None\<rparr> = CgnPendingStatus
   \<and> UpsertCgnStatusHandler (\<lambda>fc. Inr (Some ())) (\<lambda>fc st. Inr ())
        \<lparr>getStatus = (\<lambda>i. Inr \<lparr>instanceId = i, runtimeStatus = Completed\<rparr>),
         startNew = (\<lambda>n i x. Inr i), terminate = (\<lambda>i r. Inr ())\<rparr>
        ''UpsertCgnStatusHandler'' 1709251200000 ''RODFDS82S10H501T''
        \<lparr>action = REVOKE, revocation_reason = Some ''lost''\<rparr>
     = ([FindLastVersionByModelId ''RODFDS82S10H501T'',
         CheckUpdateCgnIsRunning ''RODFDS82S10H501T''
           (CgnRevokedStatus 1709251200000 (Some ''lost'')),
         StartNew ''UpdateCgnOrchestrator'' ''RODFDS82S10H501T-REVOKE''
           \<lparr>fiscalCode = ''RODFDS82S10H501T'',
            newStatus = CgnRevokedStatus 1709251200000 (Some ''lost'')\<rparr>],
        ResponseSuccessRedirectToResource ''RODFDS82S10H501T-REVOKE''
          ''/api/v1/cgn/status/RODFDS82S10H501T'' ''RODFDS82S10H501T-REVOKE'')
   \<and> snd (UpsertCgnStatusHandler (\<lambda>fc. Inr (Some ()))
            (\<lambda>fc st. Inl ResponseErrorForbiddenNotAuthorized)
            \<lparr>getStatus = (\<lambda>i. Inr \<lparr>instanceId = i, runtimeStatus = Completed\<rparr>),
             startNew = (\<lambda>n i x. Inr i), terminate = (\<lambda>i r. Inr ())\<rparr>
            ''UpsertCgnStatusHandler'' 1709251200000 ''RODFDS82S10H501T''
            \<lparr>action = REVOKE, revocation_reason = Some ''lost''\<rparr>)
       = ResponseErrorForbiddenNotAuthorized"
  using
    upsert_accepts_revocations_only
      [where req = "\<lparr>action = ACTIVATE, revocation_reason = None\<rparr>"
         and findLast = "\<lambda>fc. Inr (Some ())" and checkRunning = "\<lambda>fc st. Inr ()"
         and client = "\<lparr>getStatus = (\<lambda>i. Inr \<lparr>instanceId = i, runtimeStatus = Completed\<rparr>),
                        startNew = (\<lambda>n i x. Inr i), terminate = (\<lambda>i r. Inr ())\<rparr>"
         and logPrefix = "''UpsertCgnStatusHandler''" and now = 1709251200000
         and fc = "''RODFDS82S10H501T''"]
    upsert_accepts_revocations_only
      [where req = "\<lparr>action = REVOKE, revocation_reason = None\<rparr>"
         and findLast = "\<lambda>fc. Inr (Some ())" and checkRunning = "\<lambda>fc st. Inr ()"
         and client = "\<lparr>getStatus = (\<lambda>i. Inr \<lparr>instanceId = i, runtimeStatus = Completed\<rparr>),
                        startNew = (\<lambda>n i x. Inr i), terminate = (\<lambda>i r. Inr ())\<rparr>"
         and logPrefix = "''UpsertCgnStatusHandler''" and now = 1709251200000
         and fc = "''RODFDS82S10H501T''"]
    upsert_accepts_revocations_only
      [where req = "\<lparr>action = REVOKE, revocation_reason = Some ''lost''\<rparr>"
         and findLast = "\<lambda>fc. Inr (Some ())" and checkRunning = "\<lambda>fc st. Inr ()"
         and client = "\<lparr>getStatus = (\<lambda>i. Inr \<lparr>instanceId = i, runtimeStatus = Completed\<rparr>),
                        startNew = (\<lambda>n i x. Inr i), terminate = (\<lambda>i r. Inr ())\<rparr>"
         and logPrefix = "''UpsertCgnStatusHandler''" and now = 1709251200000
         and fc = "''RODFDS82S10H501T''" and name = "''UpdateCgnOrchestrator''"
         and orchestratorId = "''RODFDS82S10H501T-REVOKE''"
         and orchestratorInput = "\<lparr>fiscalCode = ''RODFDS82S10H501T'',
                newStatus = CgnRevokedStatus 1709251200000 (Some ''lost'')\<rparr>"]
    upsert_accepts_revocations_only
      [where req = "\<lparr>action = REVOKE, revocation_reason = Some ''lost''\<rparr>"
         and findLast = "\<lambda>fc. Inr (Some ())"
         and checkRunning = "\<lambda>fc st. Inl ResponseErrorForbiddenNotAuthorized"
         and client = "\<lparr>getStatus = (\<lambda>i. Inr \<lparr>instanceId = i, runtimeStatus = Completed\<rparr>),
                        startNew = (\<lambda>n i x. Inr i), terminate = (\<lambda>i r. Inr ())\<rparr>"
         and logPrefix = "''UpsertCgnStatusHandler''" and now = 1709251200000
         and fc = "''RODFDS82S10H501T''"]
  by (simp add: UpsertCgnStatusHandler_def CgnStatusRevocationRequest_is_def toCgnStatus_def
        makeRevokeCgnOrchestratorId_def Let_def)

section \<open>Activity layer\<close>

text \<open>The delete loop up to its first failure, and the loop without a failure.\<close>

lemma deleteVersions_first_failure:
  "k < length cards \<Longrightarrow> deleteVersion (cards ! k) = Inl err
     \<Longrightarrow> \<forall>j<k. \<exists>v. deleteVersion (cards ! j) = Inr v
     \<Longrightarrow> deleteVersions deleteVersion cards = (map DeleteVersion (take (Suc k) cards), Some err)"
proof (induction cards arbitrary: k)
  case Nil
  then show ?case by simp
next
  case (Cons eycaCard cards)
  show ?case
  proof (cases k)
    case 0
    with Cons.prems show ?thesis by simp
  next
    case (Suc k')
    from Cons.prems Suc obtain v where v: "deleteVersion eycaCard = Inr v"
      by fastforce
    from Cons.prems Suc have "\<forall>j<k'. \<exists>v. deleteVersion (cards ! j) = Inr v"
      by fastforce
    with Cons.prems Suc
    have "deleteVersions deleteVersion cards = (map DeleteVersion (take (Suc k') cards), Some err)"
      by (intro Cons.IH) simp_all
    with v Suc show ?thesis by simp
  qed
qed

lemma deleteVersions_all_succeed:
  "\<forall>j<length cards. \<exists>v. deleteVersion (cards ! j) = Inr v
     \<Longrightarrow> deleteVersions deleteVersion cards = (map DeleteVersion cards, None)"
proof (induction cards)
  case Nil
  then show ?case by simp
next
  case (Cons eycaCard cards)
  from Cons.prems obtain v where v: "deleteVersion eycaCard = Inr v"
    by fastforce
  from Cons.prems have "\<forall>j<length cards. \<exists>v. deleteVersion (cards ! j) = Inr v"
    by fastforce
  then have "deleteVersions deleteVersion cards = (map DeleteVersion cards, None)"
    by (rule Cons.IH)
  with v show ?case by simp
qed

text \<open>
  C6. If \<^verbatim>\<open>findAll\<close> fails, the result is the failure with the underlying error's message
  and no delete is attempted; if \<^verbatim>\<open>findAll\<close> returns N records and the K-th delete fails
  (the ones before it having succeeded), the result is the failure with that delete's
  message and exactly K deletes are attempted, those of the first K records; if all N
  deletes succeed, the result is the success, after N deletes.
\<close>

theorem delete_all_versions_result:
  "(findAll fc = Inl err \<longrightarrow>
      getDeleteEycaActivityHandler findAll deleteVersion fc = ([FindAll fc], FAILURE (message err)))
   \<and> (findAll fc = Inr cards \<and> k < length cards \<and> deleteVersion (cards ! k) = Inl err
        \<and> (\<forall>j<k. \<exists>v. deleteVersion (cards ! j) = Inr v) \<longrightarrow>
      getDeleteEycaActivityHandler findAll deleteVersion fc
        = (FindAll fc # map DeleteVersion (take (Suc k) cards), FAILURE (message err))
      \<and> length [call \<leftarrow> fst (getDeleteEycaActivityHandler findAll deleteVersion fc).
                  call \<noteq> FindAll fc] = Suc k)
   \<and> (findAll fc = Inr cards \<and> (\<forall>j<length cards. \<exists>v. deleteVersion (cards ! j) = Inr v) \<longrightarrow>
      getDeleteEycaActivityHandler findAll deleteVersion fc
        = (FindAll fc # map DeleteVersion cards, SUCCESS))"
proof (intro conjI impI)
  assume "findAll fc = Inl err"
  then show "getDeleteEycaActivityHandler findAll deleteVersion fc
               = ([FindAll fc], FAILURE (message err))"
    by (simp add: getDeleteEycaActivityHandler_def)
next
  assume a: "findAll fc = Inr cards \<and> k < length cards \<and> deleteVersion (cards ! k) = Inl err
               \<and> (\<forall>j<k. \<exists>v. deleteVersion (cards ! j) = Inr v)"
  then have "deleteVersions deleteVersion cards = (map DeleteVersion (take (Suc k) cards), Some err)"
    by (intro deleteVersions_first_failure) auto
  with a show r: "getDeleteEycaActivityHandler findAll deleteVersion fc
                 = (FindAll fc # map DeleteVersion (take (Suc k) cards), FAILURE (message err))"
    by (simp add: getDeleteEycaActivityHandler_def)
  have "[call \<leftarrow> map DeleteVersion xs. call \<noteq> FindAll fc] = map DeleteVersion xs"
    for xs :: "'a list"
    by (induction xs) simp_all
  with a r show "length [call \<leftarrow> fst (getDeleteEycaActivityHandler findAll deleteVersion fc).
                  call \<noteq> FindAll fc] = Suc k"
    by simp
next
  assume a: "findAll fc = Inr cards \<and> (\<forall>j<length cards. \<exists>v. deleteVersion (cards ! j) = Inr v)"
  then have "deleteVersions deleteVersion cards = (map DeleteVersion cards, None)"
    by (intro deleteVersions_all_succeed) auto
  with a show "getDeleteEycaActivityHandler findAll deleteVersion fc
                 = (FindAll fc # map DeleteVersion cards, SUCCESS)"
    by (simp add: getDeleteEycaActivityHandler_def)
qed

theorem delete_all_versions_result_witness:
  "getDeleteEycaActivityHandler (\<lambda>fc. Inl (Error ''Cannot retrieve data''))
       (\<lambda>eycaCard. Inr ''id'') ''RODFDS82S10H501T''
     = ([FindAll ''RODFDS82S10H501T''] :: string store_call list, FAILURE ''Cannot retrieve data'')
   \<and> getDeleteEycaActivityHandler
       (\<lambda>fc. Inr [''A123-B123-C123-D123'', ''X321-Y321-Z321-W321'', ''E456-F456-G456-H456''])
       (\<lambda>eycaCard. if eycaCard = ''X321-Y321-Z321-W321''
                then Inl (Error ''Cannot delete version'') else Inr ''id'')
       ''RODFDS82S10H501T''
     = ([FindAll ''RODFDS82S10H501T'', DeleteVersion ''A123-B123-C123-D123'',
         DeleteVersion ''X321-Y321-Z321-W321''],
        FAILURE ''Cannot delete version'')
   \<and> getDeleteEycaActivityHandler (\<lambda>fc. Inr [''X321-Y321-Z321-W321''])
       (\<lambda>eycaCard. Inr ''id'') ''RODFDS82S10H501T''
     = ([FindAll ''RODFDS82S10H501T'', DeleteVersion ''X321-Y321-Z321-W321''], SUCCESS)"
  using
    delete_all_versions_result
      [of "\<lambda>fc. Inl (Error ''Cannot retrieve data'')" "''RODFDS82S10H501T''"
          "Error ''Cannot retrieve data''" "\<lambda>eycaCard :: string. Inr ''id''"]
    delete_all_versions_result
      [of "\<lambda>fc. Inr [''A123-B123-C123-D123'', ''X321-Y321-Z321-W321'', ''E456-F456-G456-H456'']"
          "''RODFDS82S10H501T''" "Error ''Cannot delete version''"
          "\<lambda>eycaCard. if eycaCard = ''X321-Y321-Z321-W321''
                  then Inl (Error ''Cannot delete version'') else Inr ''id''"
          "[''A123-B123-C123-D123'', ''X321-Y321-Z321-W321'', ''E456-F456-G456-H456'']" 1]
    delete_all_versions_result
      [of "\<lambda>fc. Inr [''X321-Y321-Z321-W321'']" "''RODFDS82S10H501T''" _
          "\<lambda>eycaCard. Inr ''id''" "[''X321-Y321-Z321-W321'']"]
  by simp

section \<open>Cache store\<close>

text \<open>
  C9, as stated: when Redis replies without error and with something other than "OK", the
  error's message is \<^verbatim>\<open>errorMsg\<close> whenever one is given. An empty \<^verbatim>\<open>errorMsg\<close> is given
  here, and the message is the default one.
\<close>

theorem setWithExpirationTask_empty_errorMsg_counterexample:
  "setWithExpirationTask (\<lambda>k v mode seconds. SetCallback None None) ''otp'' ''123456'' 600 (Some [])
     = Inl (Error ''Error setting key value pair on redis'')
   \<and> setWithExpirationTask (\<lambda>k v mode seconds. SetCallback None None) ''otp'' ''123456'' 600 (Some [])
     \<noteq> Inl (Error [])"
  by (simp add: setWithExpirationTask_def singleStringReply_def falsyResponseToError_def)

text \<open>
  C9, amended: \<^verbatim>\<open>setWithExpirationTask\<close> returns Right(true) exactly when Redis replies "OK"
  without error; when Redis replies without error and with anything else, it returns Left of
  an error whose message is \<^verbatim>\<open>errorMsg\<close> when that is given and not empty, and
  "Error setting key value pair on redis" when it is absent or empty; an error from Redis is
  returned as Left of that error; Right(false) is never returned.
\<close>

theorem setWithExpirationTask_result:
  "(setWithExpirationTask redisClient_set key val seconds errorMsg = Inr True
      \<longleftrightarrow> redisClient_set key val ''EX'' seconds = SetCallback None (Some ''OK''))
   \<and> (redisClient_set key val ''EX'' seconds = SetCallback None reply \<and> reply \<noteq> Some ''OK'' \<longrightarrow>
        setWithExpirationTask redisClient_set key val seconds None
          = Inl (Error ''Error setting key value pair on redis'')
        \<and> setWithExpirationTask redisClient_set key val seconds (Some [])
          = Inl (Error ''Error setting key value pair on redis'')
        \<and> setWithExpirationTask redisClient_set key val seconds (Some (c # cs))
          = Inl (Error (c # cs)))
   \<and> (redisClient_set key val ''EX'' seconds = SetCallback (Some err) reply \<longrightarrow>
        setWithExpirationTask redisClient_set key val seconds errorMsg = Inl err)
   \<and> setWithExpirationTask redisClient_set key val seconds errorMsg \<noteq> Inr False"
  by (cases "redisClient_set key val ''EX'' seconds")
     (auto simp add: setWithExpirationTask_def singleStringReply_def falsyResponseToError_def
        split: option.splits)

theorem setWithExpirationTask_result_witness:
  "setWithExpirationTask (\<lambda>k v mode seconds. SetCallback None (Some ''OK''))
       ''otp'' ''123456'' 600 (Some ''cannot save'') = Inr True
   \<and> setWithExpirationTask (\<lambda>k v mode seconds. SetCallback None (Some ''QUEUED''))
       ''otp'' ''123456'' 600 None = Inl (Error ''Error setting key value pair on redis'')
   \<and> setWithExpirationTask (\<lambda>k v mode seconds. SetCallback None (Some ''QUEUED''))
       ''otp'' ''123456'' 600 (Some ''cannot save'') = Inl (Error ''cannot save'')
   \<and> setWithExpirationTask (\<lambda>k v mode seconds. SetCallback (Some (Error ''READONLY'')) None)
       ''otp'' ''123456'' 600 (Some ''cannot save'') = Inl (Error ''READONLY'')"
  using
    setWithExpirationTask_result
      [of "\<lambda>k v mode seconds. SetCallback None (Some ''OK'')" "''otp''" "''123456''" 600
          "Some ''cannot save''"]
    setWithExpirationTask_result
      [of "\<lambda>k v mode seconds. SetCallback None (Some ''QUEUED'')" "''otp''" "''123456''" 600
          _ "Some ''QUEUED''" "CHR ''c''" "''annot save''"]
    setWithExpirationTask_result
      [of "\<lambda>k v mode seconds. SetCallback (Some (Error ''READONLY'')) None" "''otp''" "''123456''"
          600 "Some ''cannot save''" _ _ _ "Error ''READONLY''"]
  by simp

section \<open>Configuration loading\<close>

text \<open>The three numeric settings are not among the required strings.\<close>

lemma not_in_required [simp]:
  "''CGN_UPPER_BOUND_AGE'' \<notin> set required_strings"
  "''EYCA_UPPER_BOUND_AGE'' \<notin> set required_strings"
  "''OTP_TTL_IN_SECONDS'' \<notin> set required_strings"
  by (simp_all add: required_strings_def)

text \<open>
  C10. When \<^verbatim>\<open>CGN_UPPER_BOUND_AGE\<close>, \<^verbatim>\<open>EYCA_UPPER_BOUND_AGE\<close> or \<^verbatim>\<open>OTP_TTL_IN_SECONDS\<close> is
  missing from the environment or does not parse as an integer, the value validated is the
  default 36, 31 or 600, the setting is not a validation error, and a configuration that
  validates carries the default. \<^verbatim>\<open>getConfigOrThrow\<close> throws exactly when the validation
  fails, and otherwise returns the validated configuration.
\<close>

theorem config_defaults_and_throw:
  "(env ''CGN_UPPER_BOUND_AGE'' = None
      \<or> (\<exists>s. env ''CGN_UPPER_BOUND_AGE'' = Some s \<and> integerOfString s = None) \<longrightarrow>
      CGN_UPPER_BOUND_AGE_input integerOfString env = 36
      \<and> ''CGN_UPPER_BOUND_AGE'' \<notin> set (config_errors integerOfString env)
      \<and> (\<forall>config. errorOrConfig integerOfString env = Inr config
            \<longrightarrow> CGN_UPPER_BOUND_AGE config = 36))
   \<and> (env ''EYCA_UPPER_BOUND_AGE'' = None
      \<or> (\<exists>s. env ''EYCA_UPPER_BOUND_AGE'' = Some s \<and> integerOfString s = None) \<longrightarrow>
      EYCA_UPPER_BOUND_AGE_input integerOfString env = 31
      \<and> ''EYCA_UPPER_BOUND_AGE'' \<notin> set (config_errors integerOfString env)
      \<and> (\<forall>config. errorOrConfig integerOfString env = Inr config
            \<longrightarrow> EYCA_UPPER_BOUND_AGE config = 31))
   \<and> (env ''OTP_TTL_IN_SECONDS'' = None
      \<or> (\<exists>s. env ''OTP_TTL_IN_SECONDS'' = Some s \<and> integerOfString s = None) \<longrightarrow>
      OTP_TTL_IN_SECONDS_input integerOfString env = 600
      \<and> ''OTP_TTL_IN_SECONDS'' \<notin> set (config_errors integerOfString env)
      \<and> (\<forall>config. errorOrConfig integerOfString env = Inr config
            \<longrightarrow> OTP_TTL_IN_SECONDS config = 600))
   \<and> ((\<exists>e. getConfigOrThrow readableReport integerOfString env = Inl e)
        \<longleftrightarrow> (\<exists>errors. errorOrConfig integerOfString env = Inl errors))
   \<and> (\<forall>config. errorOrConfig integerOfString env = Inr config
         \<longrightarrow> getConfigOrThrow readableReport integerOfString env = Inr config)"
proof -
  have cgn: "CGN_UPPER_BOUND_AGE_input integerOfString env = 36
      \<and> ''CGN_UPPER_BOUND_AGE'' \<notin> set (config_errors integerOfString env)
      \<and> (\<forall>config. errorOrConfig integerOfString env = Inr config
            \<longrightarrow> CGN_UPPER_BOUND_AGE config = 36)"
    if "env ''CGN_UPPER_BOUND_AGE'' = None
      \<or> (\<exists>s. env ''CGN_UPPER_BOUND_AGE'' = Some s \<and> integerOfString s = None)"
  proof -
    from that have v: "CGN_UPPER_BOUND_AGE_input integerOfString env = 36"
      by (auto simp add: CGN_UPPER_BOUND_AGE_input_def IntegerFromString_decode_def
            DEFAULT_CGN_UPPER_BOUND_AGE_def)
    then show ?thesis
      by (auto simp add: config_errors_def errorOrConfig_def Let_def split: if_splits)
  qed
  have eyca: "EYCA_UPPER_BOUND_AGE_input integerOfString env = 31
      \<and> ''EYCA_UPPER_BOUND_AGE'' \<notin> set (config_errors integerOfString env)
      \<and> (\<forall>config. errorOrConfig integerOfString env = Inr config
            \<longrightarrow> EYCA_UPPER_BOUND_AGE config = 31)"
    if "env ''EYCA_UPPER_BOUND_AGE'' = None
      \<or> (\<exists>s. env ''EYCA_UPPER_BOUND_AGE'' = Some s \<and> integerOfString s = None)"
  proof -
    from that have v: "EYCA_UPPER_BOUND_AGE_input integerOfString env = 31"
      by (auto simp add: EYCA_UPPER_BOUND_AGE_input_def IntegerFromString_decode_def
            DEFAULT_EYCA_UPPER_BOUND_AGE_def)
    then show ?thesis
      by (auto simp add: config_errors_def errorOrConfig_def Let_def split: if_splits)
  qed
  have otp: "OTP_TTL_IN_SECONDS_input integerOfString env = 600
      \<and> ''OTP_TTL_IN_SECONDS'' \<notin> set (config_errors integerOfString env)
      \<and> (\<forall>config. errorOrConfig integerOfString env = Inr config
            \<longrightarrow> OTP_TTL_IN_SECONDS config = 600)"
    if "env ''OTP_TTL_IN_SECONDS'' = None
      \<or> (\<exists>s. env ''OTP_TTL_IN_SECONDS'' = Some s \<and> integerOfString s = None)"
  proof -
    from that have v: "OTP_TTL_IN_SECONDS_input integerOfString env = 600"
      by (auto simp add: OTP_TTL_IN_SECONDS_input_def IntegerFromString_decode_def)
    then show ?thesis
      by (auto simp add: config_errors_def errorOrConfig_def Let_def split: if_splits)
  qed
  have throw: "(\<exists>e. getConfigOrThrow readableReport integerOfString env = Inl e)
        \<longleftrightarrow> (\<exists>errors. errorOrConfig integerOfString env = Inl errors)"
    by (cases "errorOrConfig integerOfString env") (simp_all add: getConfigOrThrow_def)
  have ret: "\<forall>config. errorOrConfig integerOfString env = Inr config
         \<longrightarrow> getConfigOrThrow readableReport integerOfString env = Inr config"
    by (simp add: getConfigOrThrow_def)
  from cgn eyca otp throw ret show ?thesis by blast
qed


theorem config_defaults_and_throw_witness:
  "(\<exists>config. getConfigOrThrow (\<lambda>errors. concat errors) (\<lambda>s. if s = ''40'' then Some 40 else None)
        (map_of
     [(''APPINSIGHTS_INSTRUMENTATIONKEY'', ''key''), (''CGN_EXPIRATION_TABLE_NAME'', ''cgnexp''),
      (''EYCA_EXPIRATION_TABLE_NAME'', ''eycaexp''), (''COSMOSDB_CGN_DATABASE_NAME'', ''db''),
      (''COSMOSDB_CGN_KEY'', ''dbkey''), (''COSMOSDB_CGN_URI'', ''dburi''),
      (''AzureWebJobsStorage'', ''storage''), (''CGN_STORAGE_CONNECTION_STRING'', ''conn''),
      (''EYCA_API_BASE_URL'', ''url''), (''EYCA_API_PASSWORD'', ''pwd''),
      (''EYCA_API_USERNAME'', ''usr''), (''REDIS_URL'', ''redis''),
      (''EYCA_UPPER_BOUND_AGE'', ''thirty''), (''OTP_TTL_IN_SECONDS'', ''soon'')]) = Inr config
      \<and> CGN_UPPER_BOUND_AGE config = 36 \<and> EYCA_UPPER_BOUND_AGE config = 31
      \<and> OTP_TTL_IN_SECONDS config = 600)"
  using config_defaults_and_throw
    [of "map_of
     [(''APPINSIGHTS_INSTRUMENTATIONKEY'', ''key''), (''CGN_EXPIRATION_TABLE_NAME'', ''cgnexp''),
      (''EYCA_EXPIRATION_TABLE_NAME'', ''eycaexp''), (''COSMOSDB_CGN_DATABASE_NAME'', ''db''),
      (''COSMOSDB_CGN_KEY'', ''dbkey''), (''COSMOSDB_CGN_URI'', ''dburi''),
      (''AzureWebJobsStorage'', ''storage''), (''CGN_STORAGE_CONNECTION_STRING'', ''conn''),
      (''EYCA_API_BASE_URL'', ''url''), (''EYCA_API_PASSWORD'', ''pwd''),
      (''EYCA_API_USERNAME'', ''usr''), (''REDIS_URL'', ''redis''),
      (''EYCA_UPPER_BOUND_AGE'', ''thirty''), (''OTP_TTL_IN_SECONDS'', ''soon'')]"
     "\<lambda>s. if s = ''40'' then Some 40 else None" "\<lambda>errors. concat errors"]
  by (simp add: errorOrConfig_def config_errors_def required_strings_def NonEmptyString_is_def
       CGN_UPPER_BOUND_AGE_input_def EYCA_UPPER_BOUND_AGE_input_def OTP_TTL_IN_SECONDS_input_def
       IntegerFromString_decode_def DEFAULT_CGN_UPPER_BOUND_AGE_def DEFAULT_EYCA_UPPER_BOUND_AGE_def)

end
